theory Spec2Isabelle
  imports Complex_Main "HOL-Library.AList"
begin

section \<open>GhostWriter: settings store, recording lifecycle and update queue\<close>

text \<open>
  A shallow embedding of \<^verbatim>\<open>src/ghostwriter_app.py\<close> (class \<^verbatim>\<open>GhostWriterApp\<close>).
  The instance attributes become the fields of the record \<open>app\<close>, every method becomes
  a function that takes the state and returns the new one, and what a method does to the
  outside (GUI calls, beeps, the recognizer subprocess, clipboard, keystrokes) is appended
  to the field \<open>effects\<close> in program order.
\<close>

subsection \<open>Python values and dictionaries\<close>

text \<open>
  The values a settings dictionary can hold: what \<^verbatim>\<open>json.load\<close> returns, which covers
  what the handlers store (a \<^verbatim>\<open>str\<close>, a \<^verbatim>\<open>bool\<close>, a \<^verbatim>\<open>float\<close>). A \<^verbatim>\<open>dict\<close> is an
  association list in insertion order; \<^verbatim>\<open>d[k] = v\<close> is \<open>AList.update k v d\<close> (an existing
  key keeps its place, a new key goes last) and \<^verbatim>\<open>k in d\<close>, \<^verbatim>\<open>d[k]\<close>, \<^verbatim>\<open>d.get(k, x)\<close>
  read \<open>map_of d k\<close>. A float is the real number it denotes (no arithmetic is done on
  one here; \<^verbatim>\<open>nan\<close> and the infinities are left out). A string of the settings, a
  path or a message is the list of its characters, each a code point below 256. The text
  the recognizer prints is a \<open>unicode\<close>, the list of all its code points, because
  \<^verbatim>\<open>str.strip\<close> and \<^verbatim>\<open>str.isspace\<close> decide by code point.
\<close>

datatype pyval =
    PNone
  | PBool bool
  | PInt int
  | PFloat real
  | PStr string
  | PList "pyval list"
  | PDict "(string \<times> pyval) list"

type_synonym pydict = "(string \<times> pyval) list"

type_synonym unicode = "nat list"

datatype exn =
    TypeError string
  | ValueError string
  | AttributeError string
  | OverflowError string
  | OtherException string

fun str_exn :: "exn \<Rightarrow> string" where
  "str_exn (TypeError m) = m"
| "str_exn (ValueError m) = m"
| "str_exn (AttributeError m) = m"
| "str_exn (OverflowError m) = m"
| "str_exn (OtherException m) = m"

definition dict_get :: "pydict \<Rightarrow> string \<Rightarrow> pyval \<Rightarrow> pyval" where
  \<comment> \<open>\<^verbatim>\<open>d.get(k, default)\<close>\<close>
  "dict_get d k dflt = (case map_of d k of Some v \<Rightarrow> v | None \<Rightarrow> dflt)"

fun startswith :: "string \<Rightarrow> string \<Rightarrow> bool" where
  \<comment> \<open>\<^verbatim>\<open>s.startswith(p)\<close>, arguments in the order \<open>p\<close>, \<open>s\<close>\<close>
  "startswith [] s = True"
| "startswith (p # ps) [] = False"
| "startswith (p # ps) (c # cs) = (p = c \<and> startswith ps cs)"

fun str_contains :: "string \<Rightarrow> string \<Rightarrow> bool" where
  \<comment> \<open>\<^verbatim>\<open>sub in s\<close> on two strings: \<open>sub\<close> occurs in \<open>s\<close> as a contiguous piece\<close>
  "str_contains sub [] = (sub = [])"
| "str_contains sub (c # cs) = (startswith sub (c # cs) \<or> str_contains sub cs)"

subsection \<open>Constants\<close>

definition SAMPLE_RATE :: nat where
  "SAMPLE_RATE = 16000"

definition DEFAULT_SETTINGS :: pydict where
  "DEFAULT_SETTINGS =
     [(''hotkey'', PStr ''F8''),
      (''sound_enabled'', PBool True),
      (''paste_delay'', PFloat (15 / 100)),
      (''start_minimized'', PBool False),
      (''run_on_startup'', PBool False)]"

definition PASTE_DELAY_OPTIONS :: "(string \<times> real) list" where
  "PASTE_DELAY_OPTIONS =
     [(''Fast (0.05s)'', 5 / 100),
      (''Normal (0.10s)'', 10 / 100),
      (''Default (0.15s)'', 15 / 100),
      (''Slow (0.25s)'', 25 / 100),
      (''Very Slow (0.50s)'', 50 / 100)]"

definition START_BEEP :: "nat \<times> nat" where
  "START_BEEP = (1000, 150)"

definition STOP_BEEP :: "nat \<times> nat" where
  "STOP_BEEP = (600, 150)"

datatype status = STATUS_READY | STATUS_RECORDING | STATUS_TRANSCRIBING | STATUS_ERROR

subsection \<open>The files the application touches\<close>

text \<open>
  \<^verbatim>\<open>settings.json\<close> is held as what reading it gives: it does not exist, or
  \<^verbatim>\<open>open\<close>/\<^verbatim>\<open>json.load\<close> raises on it, or \<^verbatim>\<open>json.load\<close> returns a value. The text
  layer of the \<^verbatim>\<open>json\<close> module is not part of this repository and is not modelled:
  \<^verbatim>\<open>json.dump\<close> of a dictionary leaves the file holding that dictionary. Opening the
  file for writing raises when the file is not writable, and then the file is as before.
\<close>

datatype file_content = Absent | Unreadable | Doc pyval

record disk =
  settings_json :: file_content
  settings_writable :: bool
  whisper_exe :: bool
  model_bin :: bool
  temp_files :: "string set"

subsection \<open>Keys, queue entries, effects\<close>

text \<open>
  What the keyboard listener hands to the callbacks: a member of pynput's \<^verbatim>\<open>Key\<close>
  enumeration (function keys \<open>F n\<close>, the modifiers, any other member by name) or a
  \<^verbatim>\<open>KeyCode\<close>, the only kind with an attribute \<^verbatim>\<open>char\<close> (which may be \<^verbatim>\<open>None\<close>).
\<close>

datatype key =
    F nat
  | Ctrl_l | Ctrl_r
  | Shift | Shift_l | Shift_r
  | Alt_l | Alt_r | Alt_gr
  | OtherKey string
  | KeyCode "char option"

datatype update = Status status string | Transcription unicode

datatype effect =
    UpdateStatusUI status string
  | UpdateTranscriptionUI unicode
  | IndicatorShow string
  | IndicatorHide
  | Beep "nat \<times> nat"
  | StartWorker
  | WavWrite string
  | SubprocessRun string
  | ClipboardCopy unicode
  | Sleep pyval
  | PasteKeystroke
  | StartupRegistry bool

subsection \<open>The application state\<close>

record app =
  settings :: pydict
  is_recording :: bool
  audio_data :: "real list list"
  last_transcription :: unicode
  current_status :: status
  error_message :: string
  update_queue :: "update list"
  ctrl_pressed :: bool
  shift_pressed :: bool
  alt_pressed :: bool
  ghost_indicator :: bool
  files_ok :: bool
  files :: disk
  effects :: "effect list"

definition emit :: "effect \<Rightarrow> app \<Rightarrow> app" where
  "emit e st = st\<lparr>effects := effects st @ [e]\<rparr>"

subsection \<open>Settings store\<close>

text \<open>
  One round of the loop of \<^verbatim>\<open>load_settings\<close>:
  \<^verbatim>\<open>if key in loaded: self.settings[key] = loaded[key]\<close>.
  On a dictionary this copies the entry. On anything else Python raises: \<^verbatim>\<open>in\<close> on a
  list compares elements and on a string looks for a substring, and when either finds the
  key the subscript \<^verbatim>\<open>loaded[key]\<close> raises \<^verbatim>\<open>TypeError\<close>; \<^verbatim>\<open>None\<close>, booleans and
  numbers are not iterable.
\<close>

fun merge_key :: "pyval \<Rightarrow> string \<Rightarrow> pydict \<Rightarrow> exn + pydict" where
  "merge_key (PDict loaded) k s =
     (case map_of loaded k of Some v \<Rightarrow> Inr (AList.update k v s) | None \<Rightarrow> Inr s)"
| "merge_key (PList xs) k s =
     (if PStr k \<in> set xs then Inl (TypeError ''list indices must be integers or slices, not str'')
      else Inr s)"
| "merge_key (PStr t) k s =
     (if str_contains k t then Inl (TypeError ''string indices must be integers'') else Inr s)"
| "merge_key v k s = Inl (TypeError ''argument is not iterable'')"

text \<open>
  The loop \<^verbatim>\<open>for key in DEFAULT_SETTINGS\<close>. The dictionary is updated in place, so when a
  round raises, the updates of the rounds before it stay; the exception ends the loop and
  is caught (and printed) by \<^verbatim>\<open>load_settings\<close>.
\<close>

fun merge_keys :: "string list \<Rightarrow> pyval \<Rightarrow> pydict \<Rightarrow> pydict" where
  "merge_keys [] loaded s = s"
| "merge_keys (k # ks) loaded s =
     (case merge_key loaded k s of Inl e \<Rightarrow> s | Inr s' \<Rightarrow> merge_keys ks loaded s')"

definition load_settings :: "app \<Rightarrow> app" where
  "load_settings st =
     (case settings_json (files st) of
        Absent \<Rightarrow> st
      | Unreadable \<Rightarrow> st
      | Doc loaded \<Rightarrow> st\<lparr>settings := merge_keys (map fst DEFAULT_SETTINGS) loaded (settings st)\<rparr>)"

definition save_settings :: "app \<Rightarrow> app" where
  "save_settings st =
     (if settings_writable (files st)
      then st\<lparr>files := (files st)\<lparr>settings_json := Doc (PDict (settings st))\<rparr>\<rparr>
      else st)"

fun join :: "string \<Rightarrow> string list \<Rightarrow> string" where
  \<comment> \<open>\<^verbatim>\<open>sep.join(xs)\<close>\<close>
  "join sep [] = []"
| "join sep [x] = x"
| "join sep (x # y # ys) = x @ sep @ join sep (y # ys)"

definition check_files_exist :: "app \<Rightarrow> bool \<times> app" where
  "check_files_exist st =
     (let missing = (if \<not> whisper_exe (files st) then [''whisper-cli.exe''] else [])
                  @ (if \<not> model_bin (files st) then [''ggml-tiny.bin''] else [])
      in if missing \<noteq> []
         then (False, st\<lparr>error_message := ''Missing: '' @ join '', '' missing\<rparr>)
         else (True, st))"

text \<open>\<^verbatim>\<open>__init__\<close>: the state of a freshly started application on a given disk.\<close>

definition init :: "disk \<Rightarrow> app" where
  "init d =
     (let st = load_settings
                 \<lparr>settings = DEFAULT_SETTINGS, is_recording = False, audio_data = [],
                  last_transcription = [], current_status = STATUS_READY, error_message = [],
                  update_queue = [], ctrl_pressed = False, shift_pressed = False,
                  alt_pressed = False, ghost_indicator = False, files_ok = False,
                  files = d, effects = []\<rparr>;
          (ok, st') = check_files_exist st
      in st'\<lparr>files_ok := ok\<rparr>)"

subsection \<open>The update queue\<close>

definition update_status :: "status \<Rightarrow> string \<Rightarrow> app \<Rightarrow> app" where
  "update_status state message st =
     st\<lparr>current_status := state, update_queue := update_queue st @ [Status state message]\<rparr>"

definition update_transcription :: "unicode \<Rightarrow> app \<Rightarrow> app" where
  "update_transcription text st =
     st\<lparr>last_transcription := text, update_queue := update_queue st @ [Transcription text]\<rparr>"

text \<open>
  \<^verbatim>\<open>_update_status_ui\<close> and \<^verbatim>\<open>_update_transcription_ui\<close> only configure widgets; each
  call is one effect. The two producers above are the only writers of the queue, so an
  entry is one of their two tuples.
\<close>

fun apply_update :: "update \<Rightarrow> effect" where
  "apply_update (Status state message) = UpdateStatusUI state message"
| "apply_update (Transcription text) = UpdateTranscriptionUI text"

text \<open>
  The loop of \<^verbatim>\<open>poll_updates\<close>: \<^verbatim>\<open>get_nowait\<close> takes the oldest entry, and raises
  \<^verbatim>\<open>queue.Empty\<close>, which ends the loop, when there is none. The first argument is the
  queue, the second the state the entries are applied to.
\<close>

fun drain :: "update list \<Rightarrow> app \<Rightarrow> app" where
  "drain [] st = st\<lparr>update_queue := []\<rparr>"
| "drain (u # q) st = drain q (emit (apply_update u) st)"

definition poll_updates :: "app \<Rightarrow> app" where
  "poll_updates st = drain (update_queue st) st"

subsection \<open>Settings handlers\<close>

text \<open>
  The value a handler reads from its widget is its argument. Restarting the keyboard
  listener touches none of the fields above unless starting it raises, which
  \<^verbatim>\<open>start_keyboard_listener\<close> turns into an error status; the argument \<open>failed\<close> is that
  exception, when there is one.
\<close>

definition restart_keyboard_listener :: "exn option \<Rightarrow> app \<Rightarrow> app" where
  "restart_keyboard_listener failed st =
     (case failed of
        None \<Rightarrow> st
      | Some e \<Rightarrow> update_status STATUS_ERROR (''Failed to start: '' @ str_exn e) st)"

definition on_hotkey_changed :: "string \<Rightarrow> exn option \<Rightarrow> app \<Rightarrow> app" where
  "on_hotkey_changed choice failed st =
     (let st1 = save_settings (st\<lparr>settings := AList.update ''hotkey'' (PStr choice) (settings st)\<rparr>);
          st2 = emit (UpdateStatusUI (current_status st1) []) st1
      in restart_keyboard_listener failed st2)"

definition on_sound_changed :: "bool \<Rightarrow> app \<Rightarrow> app" where
  "on_sound_changed v st =
     save_settings (st\<lparr>settings := AList.update ''sound_enabled'' (PBool v) (settings st)\<rparr>)"

definition on_delay_changed :: "string \<Rightarrow> app \<Rightarrow> app" where
  "on_delay_changed label st =
     save_settings
       (case map_of PASTE_DELAY_OPTIONS label of
          Some val \<Rightarrow> st\<lparr>settings := AList.update ''paste_delay'' (PFloat val) (settings st)\<rparr>
        | None \<Rightarrow> st)"

definition on_minimized_changed :: "bool \<Rightarrow> app \<Rightarrow> app" where
  "on_minimized_changed v st =
     save_settings (st\<lparr>settings := AList.update ''start_minimized'' (PBool v) (settings st)\<rparr>)"

definition on_startup_changed :: "bool \<Rightarrow> app \<Rightarrow> app" where
  "on_startup_changed enabled st =
     emit (StartupRegistry enabled)
       (save_settings (st\<lparr>settings := AList.update ''run_on_startup'' (PBool enabled) (settings st)\<rparr>))"

definition quit_app :: "app \<Rightarrow> app" where
  "quit_app st = save_settings (if is_recording st then st\<lparr>is_recording := False\<rparr> else st)"

subsection \<open>Audio and recording\<close>

fun truthy :: "pyval \<Rightarrow> bool" where
  \<comment> \<open>the truth value Python gives a value in \<^verbatim>\<open>if v:\<close>\<close>
  "truthy PNone = False"
| "truthy (PBool b) = b"
| "truthy (PInt n) = (n \<noteq> 0)"
| "truthy (PFloat x) = (x \<noteq> 0)"
| "truthy (PStr s) = (s \<noteq> [])"
| "truthy (PList xs) = (xs \<noteq> [])"
| "truthy (PDict kvs) = (kvs \<noteq> [])"

definition audio_callback :: "real list \<Rightarrow> app \<Rightarrow> app" where
  "audio_callback indata st =
     (if is_recording st then st\<lparr>audio_data := audio_data st @ [indata]\<rparr> else st)"

definition start_recording :: "app \<Rightarrow> app" where
  "start_recording st =
     (if \<not> files_ok st then st
      else
        let st1 = update_status STATUS_RECORDING [] (st\<lparr>is_recording := True, audio_data := []\<rparr>);
            st2 = (if ghost_indicator st1 then emit (IndicatorShow ''recording'') st1 else st1)
        in if truthy (dict_get (settings st2) ''sound_enabled'' (PBool True))
           then emit (Beep START_BEEP) st2 else st2)"

definition stop_recording :: "app \<Rightarrow> app" where
  "stop_recording st =
     (if \<not> is_recording st then st
      else
        let st1 = st\<lparr>is_recording := False\<rparr>;
            st2 = (if truthy (dict_get (settings st1) ''sound_enabled'' (PBool True))
                   then emit (Beep STOP_BEEP) st1 else st1)
        in emit StartWorker st2)"

definition toggle_recording :: "app \<Rightarrow> app" where
  "toggle_recording st = (if is_recording st then stop_recording st else start_recording st)"

subsection \<open>Transcription and text injection\<close>

text \<open>
  What the outside does during one run of \<^verbatim>\<open>process_recording\<close>: the name
  \<^verbatim>\<open>tempfile.mktemp\<close> returns, whether \<^verbatim>\<open>wav.write\<close> raises (and whether it has created
  the file by then), how the recognizer subprocess ends (its exit code and its standard
  output decoded as UTF-8, or the exception \<^verbatim>\<open>subprocess.run\<close> raises when the program
  cannot be started or its output cannot be decoded), and whether \<^verbatim>\<open>pyperclip.copy\<close> or
  the keyboard controller raises. \<^verbatim>\<open>os.remove\<close> of an existing file is taken to succeed.
\<close>

datatype recognizer_result = Exited int unicode | LaunchFailed exn

record session =
  temp_wav :: string
  wav_write_error :: "exn option"
  wav_write_creates :: bool
  recognizer :: recognizer_result
  clipboard_error :: "exn option"
  keystroke_error :: "exn option"

definition isspace_char :: "nat \<Rightarrow> bool" where
  \<comment> \<open>the code points Python's \<^verbatim>\<open>str\<close> counts as whitespace (\<^verbatim>\<open>Py_UNICODE_ISSPACE\<close>)\<close>
  "isspace_char n =
     ((0x09 \<le> n \<and> n \<le> 0x0D) \<or> (0x1C \<le> n \<and> n \<le> 0x20) \<or> n = 0x85 \<or> n = 0xA0
      \<or> n = 0x1680 \<or> (0x2000 \<le> n \<and> n \<le> 0x200A) \<or> n = 0x2028 \<or> n = 0x2029
      \<or> n = 0x202F \<or> n = 0x205F \<or> n = 0x3000)"

definition isspace :: "unicode \<Rightarrow> bool" where
  \<comment> \<open>\<^verbatim>\<open>s.isspace()\<close>: at least one character, all of them whitespace\<close>
  "isspace s = (s \<noteq> [] \<and> list_all isspace_char s)"

definition strip :: "unicode \<Rightarrow> unicode" where
  \<comment> \<open>\<^verbatim>\<open>s.strip()\<close>\<close>
  "strip s = rev (dropWhile isspace_char (rev (dropWhile isspace_char s)))"

definition transcribe :: "session \<Rightarrow> string \<Rightarrow> app \<Rightarrow> unicode option \<times> app" where
  "transcribe env audio_file st =
     (let st1 = emit (SubprocessRun audio_file) st
      in case recognizer env of
           LaunchFailed e \<Rightarrow> (None, st1)
         | Exited returncode stdout \<Rightarrow>
             if returncode \<noteq> 0 then (None, st1) else (Some (strip stdout), st1))"

fun sleep_error :: "pyval \<Rightarrow> exn option" where
  \<comment> \<open>\<^verbatim>\<open>time.sleep(v)\<close> raises on a negative number, on a number of seconds that does not
     fit the clock (a 64-bit count of nanoseconds) and on what is not a number\<close>
  "sleep_error (PFloat x) =
     (if x < 0 then Some (ValueError ''sleep length must be non-negative'')
      else if 2 ^ 63 \<le> x * 10 ^ 9 then Some (OverflowError ''timestamp out of range'')
      else None)"
| "sleep_error (PInt n) =
     (if n < 0 then Some (ValueError ''sleep length must be non-negative'')
      else if 2 ^ 63 \<le> n * 10 ^ 9 then Some (OverflowError ''timestamp too large'')
      else None)"
| "sleep_error (PBool b) = None"
| "sleep_error v = Some (TypeError ''an integer is required'')"

text \<open>
  \<^verbatim>\<open>type_text\<close>. The old clipboard is read into a local that is never used again (a
  failure of the read is swallowed), so the read leaves no trace here.
\<close>

definition type_text :: "session \<Rightarrow> unicode \<Rightarrow> app \<Rightarrow> exn option \<times> app" where
  "type_text env text st =
     (if text = [] \<or> isspace text then (None, st)
      else
        let text' = strip text in
        (case clipboard_error env of
           Some e \<Rightarrow> (Some e, st)
         | None \<Rightarrow>
             (let st1 = emit (ClipboardCopy text') st;
                  delay = dict_get (settings st1) ''paste_delay'' (PFloat (15 / 100))
              in (case sleep_error delay of
                    Some e \<Rightarrow> (Some e, st1)
                  | None \<Rightarrow>
                      (let st2 = emit (Sleep delay) st1
                       in (case keystroke_error env of
                             Some e \<Rightarrow> (Some e, st2)
                           | None \<Rightarrow> (None, emit PasteKeystroke st2)))))))"

definition hide_indicator :: "app \<Rightarrow> app" where
  \<comment> \<open>\<^verbatim>\<open>if self.ghost_indicator: self.root.after(0, self.ghost_indicator.hide)\<close>\<close>
  "hide_indicator st = (if ghost_indicator st then emit IndicatorHide st else st)"

definition wav_write :: "session \<Rightarrow> string \<Rightarrow> app \<Rightarrow> exn option \<times> app" where
  "wav_write env path st =
     (let st1 = emit (WavWrite path) st;
          created = st1\<lparr>files := (files st1)\<lparr>temp_files := insert path (temp_files (files st1))\<rparr>\<rparr>
      in case wav_write_error env of
           None \<Rightarrow> (None, created)
         | Some e \<Rightarrow> (Some e, if wav_write_creates env then created else st1))"

text \<open>The body of the \<^verbatim>\<open>try\<close> block of \<^verbatim>\<open>process_recording\<close>, with the exception it
  ends in, if any.\<close>

definition try_body :: "session \<Rightarrow> app \<Rightarrow> exn option \<times> app" where
  "try_body env st =
     (case wav_write env (temp_wav env) st of
        (Some e, st1) \<Rightarrow> (Some e, st1)
      | (None, st1) \<Rightarrow>
          (case transcribe env (temp_wav env) st1 of
             (None, st2) \<Rightarrow> (None, st2)
           | (Some text, st2) \<Rightarrow>
               if text \<noteq> [] then type_text env text (update_transcription text st2)
               else (None, st2)))"

definition remove_temp :: "string \<Rightarrow> app \<Rightarrow> app" where
  \<comment> \<open>the \<^verbatim>\<open>finally\<close> block: \<^verbatim>\<open>if os.path.exists(temp_wav): os.remove(temp_wav)\<close>\<close>
  "remove_temp path st =
     (if path \<in> temp_files (files st)
      then st\<lparr>files := (files st)\<lparr>temp_files := temp_files (files st) - {path}\<rparr>\<rparr>
      else st)"

text \<open>
  \<^verbatim>\<open>process_recording\<close>. The duration is the float \<^verbatim>\<open>len(recording) / SAMPLE_RATE\<close>;
  float division by 16000 is monotone and 0.5 is a float, so comparing the rounded
  quotient with 0.5 gives what comparing the exact quotient gives. When the \<^verbatim>\<open>try\<close>
  block raises, the \<^verbatim>\<open>except\<close> block runs and its \<^verbatim>\<open>return\<close> runs the \<^verbatim>\<open>finally\<close>
  block; otherwise the \<^verbatim>\<open>finally\<close> block runs and the function goes on.
\<close>

definition process_recording :: "session \<Rightarrow> app \<Rightarrow> app" where
  "process_recording env st =
     (if length (audio_data st) = 0 then hide_indicator (update_status STATUS_READY [] st)
      else
        let recording = concat (audio_data st);
            duration = real (length recording) / real SAMPLE_RATE
        in if duration < 5 / 10 then hide_indicator (update_status STATUS_READY [] st)
           else
             let st1 = update_status STATUS_TRANSCRIBING [] st;
                 st2 = (if ghost_indicator st1 then emit (IndicatorShow ''transcribing'') st1
                        else st1)
             in case try_body env st2 of
                  (Some e, st3) \<Rightarrow>
                    remove_temp (temp_wav env)
                      (hide_indicator (update_status STATUS_ERROR (str_exn e) st3))
                | (None, st3) \<Rightarrow>
                    hide_indicator
                      (update_status STATUS_READY [] (remove_temp (temp_wav env) st3)))"

subsection \<open>Keyboard listener\<close>

definition isdigit_char :: "char \<Rightarrow> bool" where
  \<comment> \<open>the characters below 256 that \<^verbatim>\<open>str.isdigit\<close> accepts: 0 to 9 and the superscripts
     2, 3 and 1\<close>
  "isdigit_char c =
     (let n = (of_char c :: nat)
      in (0x30 \<le> n \<and> n \<le> 0x39) \<or> n = 0xB2 \<or> n = 0xB3 \<or> n = 0xB9)"

definition isdigit :: "string \<Rightarrow> bool" where
  \<comment> \<open>\<^verbatim>\<open>s.isdigit()\<close>: at least one character, all of them digits\<close>
  "isdigit s = (s \<noteq> [] \<and> list_all isdigit_char s)"

definition lower_char :: "char \<Rightarrow> char" where
  \<comment> \<open>the lower-case letter of a capital letter below 256, any other character unchanged\<close>
  "lower_char c =
     (let n = (of_char c :: nat)
      in if (0x41 \<le> n \<and> n \<le> 0x5A) \<or> (0xC0 \<le> n \<and> n \<le> 0xDE \<and> n \<noteq> 0xD7)
         then char_of (n + 32) else c)"

definition lower :: "string \<Rightarrow> string" where
  \<comment> \<open>\<^verbatim>\<open>s.lower()\<close>\<close>
  "lower s = map lower_char s"

definition is_decimal :: "string \<Rightarrow> bool" where
  \<comment> \<open>one or more of the characters 0 to 9\<close>
  "is_decimal ds =
     (ds \<noteq> [] \<and> list_all (\<lambda>c. 0x30 \<le> (of_char c :: nat) \<and> (of_char c :: nat) \<le> 0x39) ds)"

definition digits_value :: "string \<Rightarrow> nat" where
  "digits_value ds = foldl (\<lambda>a c. 10 * a + (of_char c - 48)) 0 ds"

text \<open>
  \<^verbatim>\<open>getattr(Key, name, ...)\<close> for the names the two callers below can pass, a letter
  \<open>f\<close> followed by digits. The enumeration is pynput's, not this repository's: its
  Windows backend, the one this application runs on, has the function keys \<^verbatim>\<open>f1\<close> to
  \<^verbatim>\<open>f24\<close>, written in decimal without leading zeros.
\<close>

definition Key_attr :: "string \<Rightarrow> key option" where
  "Key_attr name =
     (case name of
        [] \<Rightarrow> None
      | c # ds \<Rightarrow>
          if c = CHR ''f'' \<and> is_decimal ds \<and> \<not> startswith ''0'' ds
             \<and> 1 \<le> digits_value ds \<and> digits_value ds \<le> 24
          then Some (F (digits_value ds)) else None)"

definition has_char :: "key \<Rightarrow> char \<Rightarrow> bool" where
  \<comment> \<open>\<^verbatim>\<open>hasattr(key, 'char') and key.char == c\<close>\<close>
  "has_char k c = (case k of KeyCode (Some c') \<Rightarrow> c' = c | _ \<Rightarrow> False)"

text \<open>
  \<^verbatim>\<open>is_hotkey_pressed\<close>. The setting may hold any value a settings file can give it;
  \<^verbatim>\<open>hotkey.startswith\<close> raises \<^verbatim>\<open>AttributeError\<close> on one that is not a string.
\<close>

definition is_hotkey_pressed :: "app \<Rightarrow> key \<Rightarrow> exn + bool" where
  "is_hotkey_pressed st k =
     (case dict_get (settings st) ''hotkey'' (PStr ''F8'') of
        PStr hotkey \<Rightarrow>
          if startswith ''F'' hotkey \<and> isdigit (drop 1 hotkey)
          then Inr (k = (case Key_attr (lower hotkey) of Some expected \<Rightarrow> expected | None \<Rightarrow> F 8))
          else if hotkey = ''Ctrl+Shift+R''
          then Inr (ctrl_pressed st \<and> shift_pressed st \<and> has_char k CHR ''r'')
          else if hotkey = ''Ctrl+Shift+D''
          then Inr (ctrl_pressed st \<and> shift_pressed st \<and> has_char k CHR ''d'')
          else if hotkey = ''Ctrl+Alt+V''
          then Inr (ctrl_pressed st \<and> alt_pressed st \<and> has_char k CHR ''v'')
          else Inr False
      | _ \<Rightarrow> Inl (AttributeError ''object has no attribute startswith''))"

definition track_press :: "key \<Rightarrow> app \<Rightarrow> app" where
  "track_press k st =
     (if k = Ctrl_l \<or> k = Ctrl_r then st\<lparr>ctrl_pressed := True\<rparr>
      else if k = Shift_l \<or> k = Shift_r \<or> k = Shift then st\<lparr>shift_pressed := True\<rparr>
      else if k = Alt_l \<or> k = Alt_r \<or> k = Alt_gr then st\<lparr>alt_pressed := True\<rparr>
      else st)"

text \<open>
  \<^verbatim>\<open>on_key_press\<close>: the state it leaves and the exception it ends in, if any (the
  exception goes to the listener thread; what was assigned before it stays).
\<close>

definition on_key_press :: "key \<Rightarrow> app \<Rightarrow> exn option \<times> app" where
  "on_key_press k st =
     (let st1 = track_press k st
      in case is_hotkey_pressed st1 k of
           Inl e \<Rightarrow> (Some e, st1)
         | Inr pressed \<Rightarrow>
             if pressed
             then (None, if \<not> is_recording st1 then start_recording st1 else stop_recording st1)
             else (None, st1))"

definition on_key_release :: "key \<Rightarrow> app \<Rightarrow> app" where
  "on_key_release k st =
     (if k = Ctrl_l \<or> k = Ctrl_r then st\<lparr>ctrl_pressed := False\<rparr>
      else if k = Shift_l \<or> k = Shift_r \<or> k = Shift then st\<lparr>shift_pressed := False\<rparr>
      else if k = Alt_l \<or> k = Alt_r \<or> k = Alt_gr then st\<lparr>alt_pressed := False\<rparr>
      else st)"

subsection \<open>Runs of the application\<close>

text \<open>
  What can happen to a running application, one event at a time: the listener reports a
  key, the tray menu toggles recording, the audio stream delivers a chunk, a worker
  thread runs \<^verbatim>\<open>process_recording\<close>, the timer polls the queue, the user changes a
  setting, the user quits. \<open>IndicatorCreated\<close> is the assignment to
  \<^verbatim>\<open>self.ghost_indicator\<close> in \<^verbatim>\<open>run\<close>. A worker may run at any point of a run, which
  covers every schedule of the threads that \<^verbatim>\<open>stop_recording\<close> starts.
\<close>

datatype event =
    KeyPress key
  | KeyRelease key
  | TrayToggle
  | AudioChunk "real list"
  | Worker session
  | Poll
  | IndicatorCreated
  | HotkeyChanged string "exn option"
  | SoundChanged bool
  | DelayChanged string
  | MinimizedChanged bool
  | StartupChanged bool
  | Quit

fun step :: "event \<Rightarrow> app \<Rightarrow> app" where
  "step (KeyPress k) st = snd (on_key_press k st)"
| "step (KeyRelease k) st = on_key_release k st"
| "step TrayToggle st = toggle_recording st"
| "step (AudioChunk indata) st = audio_callback indata st"
| "step (Worker env) st = process_recording env st"
| "step Poll st = poll_updates st"
| "step IndicatorCreated st = st\<lparr>ghost_indicator := True\<rparr>"
| "step (HotkeyChanged choice failed) st = on_hotkey_changed choice failed st"
| "step (SoundChanged v) st = on_sound_changed v st"
| "step (DelayChanged label) st = on_delay_changed label st"
| "step (MinimizedChanged v) st = on_minimized_changed v st"
| "step (StartupChanged v) st = on_startup_changed v st"
| "step Quit st = quit_app st"

fun run :: "event list \<Rightarrow> app \<Rightarrow> app" where
  "run [] st = st"
| "run (e # es) st = run es (step e st)"

subsection \<open>Producers of queue entries\<close>

text \<open>Enqueuing an entry is a call of the producer that builds it.\<close>

fun enqueue :: "update \<Rightarrow> app \<Rightarrow> app" where
  "enqueue (Status state message) st = update_status state message st"
| "enqueue (Transcription text) st = update_transcription text st"

fun enqueue_all :: "update list \<Rightarrow> app \<Rightarrow> app" where
  "enqueue_all [] st = st"
| "enqueue_all (u # us) st = enqueue_all us (enqueue u st)"

subsection \<open>Example states\<close>

definition disk0 :: disk where
  "disk0 = \<lparr>settings_json = Absent, settings_writable = True, whisper_exe = True,
            model_bin = True, temp_files = {}\<rparr>"

subsection \<open>Observations on the effects and the queue\<close>

fun is_recognizer_run :: "effect \<Rightarrow> bool" where
  "is_recognizer_run (SubprocessRun f) = True"
| "is_recognizer_run e = False"

fun is_injection :: "effect \<Rightarrow> bool" where
  "is_injection (ClipboardCopy t) = True"
| "is_injection PasteKeystroke = True"
| "is_injection e = False"

fun is_error_update :: "update \<Rightarrow> bool" where
  "is_error_update (Status state message) = (state = STATUS_ERROR)"
| "is_error_update (Transcription text) = False"

text \<open>
  The two early returns of \<^verbatim>\<open>process_recording\<close> are passed: there is a chunk and the
  duration is not below half a second, so the run goes on to write the wave file.
\<close>

definition reaches_write :: "app \<Rightarrow> bool" where
  "reaches_write st =
     (length (audio_data st) \<noteq> 0
      \<and> \<not> real (length (concat (audio_data st))) / real SAMPLE_RATE < 5 / 10)"

definition recorded :: app where
  "recorded = (init disk0)\<lparr>audio_data := [replicate 8000 0]\<rparr>"

definition too_short :: app where
  "too_short = (init disk0)\<lparr>audio_data := [replicate 7999 0]\<rparr>"

definition session_ok :: session where
  "session_ok = \<lparr>temp_wav = ''tmp0.wav'', wav_write_error = None, wav_write_creates = True,
                 recognizer = Exited 0 [0x68, 0x65, 0x6C, 0x6C, 0x6F], clipboard_error = None,
                 keystroke_error = None\<rparr>"

definition session_exit1 :: session where
  "session_exit1 = session_ok\<lparr>recognizer := Exited 1 []\<rparr>"

definition session_blank :: session where
  "session_blank = session_ok\<lparr>recognizer := Exited 0 [0x20, 0xA0, 0x3000, 0x0A]\<rparr>"

definition session_paste_fails :: session where
  "session_paste_fails = session_ok\<lparr>keystroke_error := Some (OtherException ''no display'')\<rparr>"

definition disk_no_model :: disk where
  "disk_no_model = disk0\<lparr>model_bin := False\<rparr>"

text \<open>The part of the state that a worker thread never assigns.\<close>

definition untouched :: "app \<Rightarrow> pydict \<times> bool \<times> bool \<times> real list list \<times> file_content \<times> bool" where
  "untouched st =
     (settings st, files_ok st, is_recording st, audio_data st, settings_json (files st),
      settings_writable (files st))"

subsection \<open>Settings files\<close>

text \<open>A file content that is a dictionary with the five recognized keys and no other.\<close>

definition recognized_only :: "file_content \<Rightarrow> bool" where
  "recognized_only c =
     (case c of Doc (PDict kvs) \<Rightarrow> map fst kvs = map fst DEFAULT_SETTINGS | _ \<Rightarrow> False)"


definition custom :: app where
  "custom =
     (init disk0)\<lparr>settings :=
       [(''hotkey'', PStr ''Ctrl+Alt+V''), (''sound_enabled'', PBool False),
        (''paste_delay'', PFloat (5 / 100)), (''start_minimized'', PBool True),
        (''run_on_startup'', PBool False)]\<rparr>"

definition disk_extra :: disk where
  "disk_extra =
     disk0\<lparr>settings_json := Doc (PDict [(''theme'', PStr ''dark''), (''hotkey'', PStr ''F5'')])\<rparr>"

section \<open>Properties\<close>

subsection \<open>The update queue is drained in order\<close>

lemma drain_effects: "effects (drain q st) = effects st @ map apply_update q"
  by (induction q arbitrary: st) (simp_all add: emit_def)

lemma drain_queue: "update_queue (drain q st) = []"
  by (induction q arbitrary: st) simp_all

lemma enqueue_queue: "update_queue (enqueue u st) = update_queue st @ [u]"
  by (cases u) (simp_all add: update_status_def update_transcription_def)

lemma enqueue_effects: "effects (enqueue u st) = effects st"
  by (cases u) (simp_all add: update_status_def update_transcription_def)

lemma enqueue_all_queue: "update_queue (enqueue_all us st) = update_queue st @ us"
  by (induction us arbitrary: st) (simp_all add: enqueue_queue)

lemma enqueue_all_effects: "effects (enqueue_all us st) = effects st"
  by (induction us arbitrary: st) (simp_all add: enqueue_effects)

lemma apply_update_cases:
  "apply_update u =
     (case u of Status state message \<Rightarrow> UpdateStatusUI state message
              | Transcription t \<Rightarrow> UpdateTranscriptionUI t)"
  by (cases u) simp_all

text \<open>
  Claim C3. Whatever entries the producers enqueue, in whatever mix, one call of
  \<^verbatim>\<open>poll_updates\<close> applies every entry that is in the queue, the ones already waiting
  first and then the new ones in the order they were enqueued, each exactly once: the
  effects it adds are, entry by entry and in that order, the call of
  \<^verbatim>\<open>_update_status_ui\<close> with the state and message of a status entry and the call of
  \<^verbatim>\<open>_update_transcription_ui\<close> with the text of a transcription entry. It leaves the
  queue empty. In particular, after enqueuing A and then B, A is applied before B.
\<close>

theorem C3_poll_updates_fifo:
  "effects (poll_updates (enqueue_all us st))
     = effects st
       @ map (\<lambda>u. case u of Status state message \<Rightarrow> UpdateStatusUI state message
                           | Transcription t \<Rightarrow> UpdateTranscriptionUI t)
           (update_queue st @ us)
   \<and> update_queue (poll_updates (enqueue_all us st)) = []"
proof -
  have "map apply_update (update_queue st @ us)
      = map (\<lambda>u. case u of Status state message \<Rightarrow> UpdateStatusUI state message
                           | Transcription t \<Rightarrow> UpdateTranscriptionUI t)
          (update_queue st @ us)"
    by (rule map_cong [OF refl]) (rule apply_update_cases)
  then show ?thesis
    by (simp add: poll_updates_def drain_effects drain_queue enqueue_all_queue
        enqueue_all_effects)
qed

subsection \<open>The recording lifecycle\<close>

lemma short_recording:
  assumes "audio_data st = []
           \<or> real (length (concat (audio_data st))) / real SAMPLE_RATE < 5 / 10"
  shows "process_recording env st = hide_indicator (update_status STATUS_READY [] st)"
  using assms by (auto simp: process_recording_def Let_def)

lemma example_states:
  "audio_data recorded = [replicate 8000 0]" "audio_data too_short = [replicate 7999 0]"
  "update_queue recorded = []" "update_queue too_short = []"
  "effects recorded = []" "effects too_short = []"
  "ghost_indicator recorded = False" "ghost_indicator too_short = False"
  "temp_files (files recorded) = {}"
  "settings recorded = DEFAULT_SETTINGS"
  by (simp_all add: recorded_def too_short_def init_def load_settings_def
        check_files_exist_def disk0_def)

lemma reaches_write_recorded: "reaches_write recorded"
  by (simp add: reaches_write_def example_states SAMPLE_RATE_def)

text \<open>
  Claim C2. When the buffer has no chunk, or the chunks together last less than half a
  second, \<^verbatim>\<open>process_recording\<close> starts no recognizer subprocess, sets the status to
  ready and enqueues exactly that one status update.
\<close>

theorem C2_short_recording_skipped:
  assumes "audio_data st = []
           \<or> real (length (concat (audio_data st))) / real SAMPLE_RATE < 5 / 10"
  shows "filter is_recognizer_run (effects (process_recording env st))
           = filter is_recognizer_run (effects st)
         \<and> current_status (process_recording env st) = STATUS_READY
         \<and> update_queue (process_recording env st)
             = update_queue st @ [Status STATUS_READY []]"
  unfolding short_recording [OF assms]
  by (simp add: hide_indicator_def update_status_def emit_def)

theorem C2_short_recording_skipped_witness:
  "(audio_data too_short = []
     \<or> real (length (concat (audio_data too_short))) / real SAMPLE_RATE < 5 / 10)
   \<and> filter is_recognizer_run (effects (process_recording session_ok too_short)) = []
   \<and> current_status (process_recording session_ok too_short) = STATUS_READY
   \<and> update_queue (process_recording session_ok too_short) = [Status STATUS_READY []]"
proof -
  have short: "audio_data too_short = []
      \<or> real (length (concat (audio_data too_short))) / real SAMPLE_RATE < 5 / 10"
    by (simp add: example_states SAMPLE_RATE_def)
  from C2_short_recording_skipped [OF short, of session_ok] short
  show ?thesis by (simp add: example_states)
qed

lemma process_long:
  assumes "reaches_write st"
  shows "process_recording env st =
     (let st1 = update_status STATUS_TRANSCRIBING [] st;
          st2 = (if ghost_indicator st1 then emit (IndicatorShow ''transcribing'') st1 else st1)
      in case try_body env st2 of
           (Some e, st3) \<Rightarrow>
             remove_temp (temp_wav env)
               (hide_indicator (update_status STATUS_ERROR (str_exn e) st3))
         | (None, st3) \<Rightarrow>
             hide_indicator (update_status STATUS_READY [] (remove_temp (temp_wav env) st3)))"
  using assms by (simp add: process_recording_def reaches_write_def Let_def)

lemma remove_temp_gone: "p \<notin> temp_files (files (remove_temp p st))"
  by (simp add: remove_temp_def)

lemma files_hide: "files (hide_indicator st) = files st"
  by (simp add: hide_indicator_def emit_def)

lemma files_update_status: "files (update_status s m st) = files st"
  by (simp add: update_status_def)

lemma wav_write_fields:
  "effects (snd (wav_write env f st)) = effects st @ [WavWrite f]"
  "update_queue (snd (wav_write env f st)) = update_queue st"
  "ghost_indicator (snd (wav_write env f st)) = ghost_indicator st"
  by (simp_all add: wav_write_def emit_def Let_def split: option.splits)

lemma transcribe_fields:
  "effects (snd (transcribe env f st)) = effects st @ [SubprocessRun f]"
  "update_queue (snd (transcribe env f st)) = update_queue st"
  "ghost_indicator (snd (transcribe env f st)) = ghost_indicator st"
  by (simp_all add: transcribe_def emit_def Let_def split: recognizer_result.splits)

lemma type_text_effects:
  "\<exists>more. effects (snd (type_text env text st)) = effects st @ more"
  by (simp add: type_text_def emit_def Let_def split: option.splits)

lemma try_body_effects:
  "\<exists>more. effects (snd (try_body env st)) = effects st @ WavWrite (temp_wav env) # more"
proof (cases "wav_write_error env")
  case (Some e)
  then show ?thesis
    by (simp add: try_body_def wav_write_def emit_def Let_def)
next
  case None
  obtain st1 where ww: "wav_write env (temp_wav env) st = (None, st1)"
    using None by (simp add: wav_write_def Let_def)
  obtain r st2 where tr: "transcribe env (temp_wav env) st1 = (r, st2)"
    by (cases "transcribe env (temp_wav env) st1")
  have "effects st1 = effects st @ [WavWrite (temp_wav env)]"
    using wav_write_fields(1) [of env "temp_wav env" st] ww by simp
  then have st2: "effects st2 = effects st @ [WavWrite (temp_wav env), SubprocessRun (temp_wav env)]"
    using transcribe_fields(1) [of env "temp_wav env" st1] tr by simp
  show ?thesis
  proof (cases "\<exists>text. r = Some text \<and> text \<noteq> []")
    case False
    then have "try_body env st = (None, st2)"
      using tr ww by (cases r) (simp_all add: try_body_def)
    then show ?thesis using st2 by simp
  next
    case True
    then obtain t where r: "r = Some t" "t \<noteq> []" by blast
    then have tb: "try_body env st = type_text env t (update_transcription t st2)"
      using tr ww by (simp add: try_body_def)
    obtain more where
      "effects (snd (type_text env t (update_transcription t st2)))
         = effects (update_transcription t st2) @ more"
      using type_text_effects by blast
    then show ?thesis using tb st2 by (simp add: update_transcription_def)
  qed
qed

text \<open>
  Claim C5. In every run of \<^verbatim>\<open>process_recording\<close> that gets as far as writing the
  temporary wave file, whatever the write, the recognizer, the clipboard and the keyboard
  do (succeed or raise), the write of that file is among the effects of the run and the
  file does not exist when the run is over.
\<close>

theorem C5_temp_file_removed:
  assumes "reaches_write st"
  shows "temp_wav env \<notin> temp_files (files (process_recording env st))
         \<and> WavWrite (temp_wav env) \<in> set (effects (process_recording env st))"
proof -
  let ?st2 = "(let st1 = update_status STATUS_TRANSCRIBING [] st
              in if ghost_indicator st1 then emit (IndicatorShow ''transcribing'') st1 else st1)"
  obtain more where more: "effects (snd (try_body env ?st2))
      = effects ?st2 @ WavWrite (temp_wav env) # more"
    using try_body_effects by blast
  obtain r st3 where tb: "try_body env ?st2 = (r, st3)"
    by (cases "try_body env ?st2")
  have gone: "temp_wav env \<notin> temp_files (files (process_recording env st))"
    unfolding process_long [OF assms]
    using tb by (cases r) (simp_all add: Let_def remove_temp_gone files_hide files_update_status)
  have "WavWrite (temp_wav env) \<in> set (effects st3)"
    using more tb by simp
  then have "WavWrite (temp_wav env) \<in> set (effects (process_recording env st))"
    unfolding process_long [OF assms]
    using tb
    by (cases r) (simp_all add: Let_def remove_temp_def hide_indicator_def update_status_def emit_def)
  with gone show ?thesis by simp
qed

theorem C5_temp_file_removed_witness:
  "reaches_write recorded
   \<and> temp_wav session_paste_fails \<notin> temp_files (files (process_recording session_paste_fails recorded))
   \<and> WavWrite ''tmp0.wav'' \<in> set (effects (process_recording session_paste_fails recorded))
   \<and> current_status (process_recording session_paste_fails recorded) = STATUS_ERROR"
proof -
  have "current_status (process_recording session_paste_fails recorded) = STATUS_ERROR"
    unfolding process_long [OF reaches_write_recorded]
    by (simp add: example_states session_paste_fails_def session_ok_def try_body_def wav_write_def transcribe_def
        type_text_def Let_def emit_def update_status_def update_transcription_def remove_temp_def hide_indicator_def
        strip_def isspace_def isspace_char_def dict_get_def DEFAULT_SETTINGS_def)
  with C5_temp_file_removed [OF reaches_write_recorded, of session_paste_fails] reaches_write_recorded
  show ?thesis by (simp add: session_paste_fails_def session_ok_def)
qed

subsection \<open>Runs in which the recognizer gives no text\<close>

lemma strip_space:
  assumes "list_all isspace_char out"
  shows "strip out = []"
proof -
  have blank: "dropWhile isspace_char out = []"
    using assms by (simp add: list_all_iff)
  show ?thesis unfolding strip_def blank by simp
qed

lemma transcribe_nonzero:
  "recognizer env = Exited rc out \<Longrightarrow> rc \<noteq> 0 \<Longrightarrow> fst (transcribe env f st) = None"
  by (simp add: transcribe_def Let_def)

lemma transcribe_blank:
  "recognizer env = Exited 0 out \<Longrightarrow> list_all isspace_char out
   \<Longrightarrow> fst (transcribe env f st) = Some []"
  by (simp add: transcribe_def Let_def strip_space)

lemma try_body_no_text:
  assumes "wav_write_error env = None"
    and "\<And>f s. fst (transcribe env f s) = None \<or> fst (transcribe env f s) = Some []"
  shows "try_body env st
           = (None, snd (transcribe env (temp_wav env) (snd (wav_write env (temp_wav env) st))))"
proof -
  obtain st1 where ww: "wav_write env (temp_wav env) st = (None, st1)"
    using assms(1) by (simp add: wav_write_def Let_def)
  obtain r st2 where tr: "transcribe env (temp_wav env) st1 = (r, st2)"
    by (cases "transcribe env (temp_wav env) st1")
  have "r = None \<or> r = Some []"
    using assms(2) [of "temp_wav env" st1] tr by simp
  then show ?thesis
    using ww tr by (auto simp: try_body_def)
qed

lemma no_text_run:
  assumes "reaches_write st" and "wav_write_error env = None"
    and "\<And>f s. fst (transcribe env f s) = None \<or> fst (transcribe env f s) = Some []"
  shows "filter is_injection (effects (process_recording env st))
           = filter is_injection (effects st)
       \<and> current_status (process_recording env st) = STATUS_READY
       \<and> update_queue (process_recording env st)
           = update_queue st @ [Status STATUS_TRANSCRIBING [], Status STATUS_READY []]"
  unfolding process_long [OF assms(1)] Let_def try_body_no_text [OF assms(2,3)]
  by (simp add: hide_indicator_def update_status_def emit_def remove_temp_def
        transcribe_fields wav_write_fields)

text \<open>
  Claim C6. In a run that reaches the recognizer (the recording is long enough and the
  wave file is written), when the recognizer exits with code 0 and its output is empty or
  consists only of characters that Python counts as whitespace (the Unicode ones
  included), nothing is copied to the clipboard and no paste keystroke is sent, the
  status ends as ready, and the status updates enqueued are transcribing and then ready.
  \<^verbatim>\<open>type_text\<close> itself does nothing on such a text.
\<close>

theorem C6_blank_output_not_pasted:
  assumes "reaches_write st" and "wav_write_error env = None"
    and "recognizer env = Exited 0 out" and "list_all isspace_char out"
  shows "filter is_injection (effects (process_recording env st))
           = filter is_injection (effects st)
       \<and> current_status (process_recording env st) = STATUS_READY
       \<and> update_queue (process_recording env st)
           = update_queue st @ [Status STATUS_TRANSCRIBING [], Status STATUS_READY []]
       \<and> type_text env out st = (None, st)"
proof -
  have "type_text env out st = (None, st)"
    using assms(4) by (cases out) (simp_all add: type_text_def isspace_def)
  moreover have "\<And>f s. fst (transcribe env f s) = None \<or> fst (transcribe env f s) = Some []"
    using transcribe_blank [OF assms(3,4)] by simp
  ultimately show ?thesis
    using no_text_run [OF assms(1,2)] by simp
qed

theorem C6_blank_output_not_pasted_witness:
  "reaches_write recorded \<and> wav_write_error session_blank = None
   \<and> recognizer session_blank = Exited 0 [0x20, 0xA0, 0x3000, 0x0A]
   \<and> list_all isspace_char [0x20, 0xA0, 0x3000, 0x0A]
   \<and> filter is_injection (effects (process_recording session_blank recorded)) = []
   \<and> current_status (process_recording session_blank recorded) = STATUS_READY
   \<and> update_queue (process_recording session_blank recorded)
       = [Status STATUS_TRANSCRIBING [], Status STATUS_READY []]"
proof -
  have w: "wav_write_error session_blank = None"
    and r: "recognizer session_blank = Exited 0 [0x20, 0xA0, 0x3000, 0x0A]"
    by (simp_all add: session_blank_def session_ok_def)
  have b: "list_all isspace_char [0x20, 0xA0, 0x3000, 0x0A]"
    by (simp add: isspace_char_def)
  from C6_blank_output_not_pasted [OF reaches_write_recorded w r b] reaches_write_recorded w r b
  show ?thesis by (simp add: example_states)
qed

text \<open>
  Claim C1, as the code has it. In a run that reaches the recognizer, when the recognizer
  exits with a code other than 0, nothing is copied to the clipboard and no paste
  keystroke is sent; \<^verbatim>\<open>transcribe\<close> returns \<^verbatim>\<open>None\<close>, which \<^verbatim>\<open>process_recording\<close>
  treats like an empty text: the status ends as ready, the status updates enqueued are
  transcribing and then ready, and no error status is enqueued.
\<close>

theorem C1_nonzero_exit_no_paste_ready:
  assumes "reaches_write st" and "wav_write_error env = None"
    and "recognizer env = Exited rc out" and "rc \<noteq> 0"
  shows "filter is_injection (effects (process_recording env st))
           = filter is_injection (effects st)
       \<and> current_status (process_recording env st) = STATUS_READY
       \<and> update_queue (process_recording env st)
           = update_queue st @ [Status STATUS_TRANSCRIBING [], Status STATUS_READY []]
       \<and> filter is_error_update (update_queue (process_recording env st))
           = filter is_error_update (update_queue st)"
proof -
  have "\<And>f s. fst (transcribe env f s) = None \<or> fst (transcribe env f s) = Some []"
    using transcribe_nonzero [OF assms(3,4)] by simp
  from no_text_run [OF assms(1,2) this] show ?thesis by simp
qed

theorem C1_nonzero_exit_no_paste_ready_witness:
  "reaches_write recorded \<and> wav_write_error session_exit1 = None
   \<and> recognizer session_exit1 = Exited 1 [] \<and> (1::int) \<noteq> 0
   \<and> filter is_injection (effects (process_recording session_exit1 recorded)) = []
   \<and> current_status (process_recording session_exit1 recorded) = STATUS_READY
   \<and> update_queue (process_recording session_exit1 recorded)
       = [Status STATUS_TRANSCRIBING [], Status STATUS_READY []]"
proof -
  have w: "wav_write_error session_exit1 = None"
    and r: "recognizer session_exit1 = Exited 1 []"
    by (simp_all add: session_exit1_def session_ok_def)
  have n: "(1::int) \<noteq> 0" by simp
  from C1_nonzero_exit_no_paste_ready [OF reaches_write_recorded w r n] reaches_write_recorded w r
  show ?thesis by (simp add: example_states)
qed

text \<open>
  The claim as the specification words it fails: with the recognizer exiting with code 1
  the status is not error afterwards, and the queue holds no error status update.
\<close>

theorem C1_exit1_status_counterexample:
  "recognizer session_exit1 = Exited 1 []
   \<and> current_status (process_recording session_exit1 recorded) \<noteq> STATUS_ERROR
   \<and> filter is_error_update (update_queue (process_recording session_exit1 recorded)) = []"
  unfolding process_long [OF reaches_write_recorded]
  by (simp add: example_states session_exit1_def session_ok_def try_body_def wav_write_def
        transcribe_def Let_def emit_def update_status_def remove_temp_def hide_indicator_def)

subsection \<open>Recording is blocked when a required file is missing\<close>

lemma start_recording_blocked: "\<not> files_ok st \<Longrightarrow> start_recording st = st"
  by (simp add: start_recording_def)

lemma stop_recording_idle: "\<not> is_recording st \<Longrightarrow> stop_recording st = st"
  by (simp add: stop_recording_def)

lemma track_press_fields:
  "files_ok (track_press k st) = files_ok st"
  "is_recording (track_press k st) = is_recording st"
  "audio_data (track_press k st) = audio_data st"
  "update_queue (track_press k st) = update_queue st"
  "effects (track_press k st) = effects st"
  by (simp_all add: track_press_def)

lemma on_key_press_blocked:
  assumes "\<not> files_ok st" and "\<not> is_recording st"
  shows "snd (on_key_press k st) = track_press k st"
  using assms
  by (simp add: on_key_press_def Let_def start_recording_blocked track_press_fields
      split: sum.splits)

lemma untouched_basic:
  "untouched (emit e st) = untouched st"
  "untouched (update_status s m st) = untouched st"
  "untouched (update_transcription t st) = untouched st"
  "untouched (hide_indicator st) = untouched st"
  "untouched (remove_temp p st) = untouched st"
  by (simp_all add: untouched_def emit_def update_status_def update_transcription_def
      hide_indicator_def remove_temp_def)

lemma untouched_wav_write: "untouched (snd (wav_write env p st)) = untouched st"
  by (simp add: wav_write_def Let_def untouched_def emit_def split: option.splits)

lemma untouched_transcribe: "untouched (snd (transcribe env p st)) = untouched st"
  by (simp add: transcribe_def Let_def untouched_basic split: recognizer_result.splits)

lemma untouched_type_text: "untouched (snd (type_text env t st)) = untouched st"
  by (simp add: type_text_def Let_def untouched_basic split: option.splits)

lemma untouched_try_body: "untouched (snd (try_body env st)) = untouched st"
proof -
  obtain r1 st1 where ww: "wav_write env (temp_wav env) st = (r1, st1)"
    by (cases "wav_write env (temp_wav env) st")
  obtain r2 st2 where tr: "transcribe env (temp_wav env) st1 = (r2, st2)"
    by (cases "transcribe env (temp_wav env) st1")
  have 1: "untouched st1 = untouched st"
    using untouched_wav_write [of env "temp_wav env" st] ww by simp
  have 2: "untouched st2 = untouched st"
    using untouched_transcribe [of env "temp_wav env" st1] tr 1 by simp
  show ?thesis
    using ww tr 1 2
    by (cases r1; cases r2) (simp_all add: try_body_def untouched_type_text untouched_basic)
qed

lemma untouched_process_recording: "untouched (process_recording env st) = untouched st"
proof -
  let ?st2 = "if ghost_indicator (update_status STATUS_TRANSCRIBING [] st)
              then emit (IndicatorShow ''transcribing'') (update_status STATUS_TRANSCRIBING [] st)
              else update_status STATUS_TRANSCRIBING [] st"
  obtain r st3 where tb: "try_body env ?st2 = (r, st3)"
    by (cases "try_body env ?st2")
  have "untouched st3 = untouched ?st2"
    using untouched_try_body [of env ?st2] tb by simp
  also have "\<dots> = untouched st"
    by (simp add: untouched_basic)
  finally show ?thesis
    using tb by (cases r) (simp_all add: process_recording_def Let_def untouched_basic)
qed

lemma untouched_drain: "untouched (drain q st) = untouched st"
proof (induction q arbitrary: st)
  case Nil
  show ?case by (simp add: untouched_def)
next
  case (Cons u q)
  then show ?case by (simp add: untouched_basic)
qed

lemma untouched_poll_updates: "untouched (poll_updates st) = untouched st"
  by (simp add: poll_updates_def untouched_drain)

lemma process_recording_fields:
  "files_ok (process_recording env st) = files_ok st"
  "is_recording (process_recording env st) = is_recording st"
  "audio_data (process_recording env st) = audio_data st"
  using untouched_process_recording [of env st] by (simp_all add: untouched_def)

lemma step_blocked:
  assumes "\<not> files_ok st" and "\<not> is_recording st"
  shows "\<not> files_ok (step e st) \<and> \<not> is_recording (step e st)
         \<and> audio_data (step e st) = audio_data st"
proof (cases e)
  case (KeyPress k)
  then show ?thesis using assms by (simp add: on_key_press_blocked track_press_fields)
next
  case (Worker env)
  then show ?thesis using assms by (simp add: process_recording_fields)
next
  case Poll
  then show ?thesis using assms untouched_poll_updates [of st]
    by (simp add: untouched_def)
next
  case (HotkeyChanged choice failed)
  then show ?thesis using assms
    by (simp add: on_hotkey_changed_def restart_keyboard_listener_def save_settings_def
        update_status_def emit_def Let_def split: option.splits)
next
  case (DelayChanged label)
  then show ?thesis using assms
    by (simp add: on_delay_changed_def save_settings_def split: option.splits)
qed (use assms in \<open>simp_all add: on_key_release_def toggle_recording_def
      start_recording_blocked audio_callback_def
      on_sound_changed_def on_minimized_changed_def on_startup_changed_def quit_app_def
      save_settings_def emit_def\<close>)


lemma run_blocked:
  assumes "\<not> files_ok st" and "\<not> is_recording st"
  shows "\<not> files_ok (run es st) \<and> \<not> is_recording (run es st)
         \<and> audio_data (run es st) = audio_data st"
  using assms
proof (induction es arbitrary: st)
  case Nil
  then show ?case by simp
next
  case (Cons e es)
  from step_blocked [OF Cons.prems, of e]
  have s: "\<not> files_ok (step e st)" "\<not> is_recording (step e st)"
    "audio_data (step e st) = audio_data st" by simp_all
  from Cons.IH [OF s(1,2)] s(3) show ?case by simp
qed

lemma init_fields:
  "is_recording (init d) = False" "audio_data (init d) = []"
  "update_queue (init d) = []" "effects (init d) = []"
  "files_ok (init d) = (whisper_exe d \<and> model_bin d)"
  by (auto simp: init_def load_settings_def check_files_exist_def Let_def
      split: file_content.splits)

text \<open>
  Claim C9. When a required file was missing at startup, so that \<^verbatim>\<open>files_ok\<close> is false:
  \<^verbatim>\<open>start_recording\<close> changes nothing at all; with no recording under way the tray
  menu entry changes nothing, and a key press changes nothing but the modifier flags it
  tracks (so \<^verbatim>\<open>is_recording\<close> stays false, the buffer is not cleared, nothing is
  enqueued and there is no effect); and after any sequence of events whatever
  \<^verbatim>\<open>is_recording\<close> is still false and the buffer is as it was. An application started on
  a disk that lacks the recognizer or the model is in that situation.
\<close>

theorem C9_missing_files_block_recording:
  assumes "\<not> files_ok st" and "\<not> is_recording st"
  shows "start_recording st = st
       \<and> toggle_recording st = st
       \<and> snd (on_key_press k st) = track_press k st
       \<and> is_recording (snd (on_key_press k st)) = False
       \<and> audio_data (snd (on_key_press k st)) = audio_data st
       \<and> update_queue (snd (on_key_press k st)) = update_queue st
       \<and> effects (snd (on_key_press k st)) = effects st
       \<and> is_recording (run es st) = False
       \<and> audio_data (run es st) = audio_data st"
  using assms run_blocked [OF assms, of es]
  by (simp add: start_recording_blocked toggle_recording_def on_key_press_blocked
      track_press_fields)

theorem C9_missing_files_block_recording_witness:
  "\<not> files_ok (init disk_no_model) \<and> \<not> is_recording (init disk_no_model)
   \<and> start_recording (init disk_no_model) = init disk_no_model
   \<and> toggle_recording (init disk_no_model) = init disk_no_model
   \<and> is_recording (snd (on_key_press (F 8) (init disk_no_model))) = False
   \<and> update_queue (snd (on_key_press (F 8) (init disk_no_model)))
       = update_queue (init disk_no_model)
   \<and> is_recording (run [KeyPress (F 8), TrayToggle, AudioChunk [0], KeyPress (F 8)]
        (init disk_no_model)) = False
   \<and> audio_data (run [KeyPress (F 8), TrayToggle, AudioChunk [0], KeyPress (F 8)]
        (init disk_no_model)) = audio_data (init disk_no_model)"
proof -
  have f: "\<not> files_ok (init disk_no_model)"
    by (simp add: init_fields disk_no_model_def disk0_def)
  have r: "\<not> is_recording (init disk_no_model)"
    by (simp add: init_fields)
  from C9_missing_files_block_recording [OF f r, of "F 8"
      "[KeyPress (F 8), TrayToggle, AudioChunk [0], KeyPress (F 8)]"] f r
  show ?thesis by blast
qed

subsection \<open>Loading settings\<close>

lemma merge_keys_lookup:
  "map_of (merge_keys ks (PDict kvs) s) k =
     (if k \<in> set ks then (case map_of kvs k of Some v \<Rightarrow> Some v | None \<Rightarrow> map_of s k)
      else map_of s k)"
  by (induction ks arbitrary: s) (auto simp: update_conv' split: option.splits)

lemma update_present_keys:
  "k \<in> fst ` set s \<Longrightarrow> map fst (AList.update k v s) = map fst s"
  by (simp add: update_keys)

lemma merge_key_keys:
  assumes "k \<in> fst ` set s" and "merge_key loaded k s = Inr s'"
  shows "map fst s' = map fst s"
proof (cases loaded)
  case (PDict kvs)
  show ?thesis
  proof (cases "map_of kvs k")
    case None
    with PDict assms(2) show ?thesis by simp
  next
    case (Some v)
    with PDict assms(2) have "s' = AList.update k v s" by simp
    then show ?thesis using assms(1) by (simp add: update_present_keys)
  qed
qed (use assms(2) in \<open>simp_all split: if_splits\<close>)

lemma merge_keys_keys:
  "set ks \<subseteq> fst ` set s \<Longrightarrow> map fst (merge_keys ks loaded s) = map fst s"
proof (induction ks arbitrary: s)
  case Nil
  show ?case by simp
next
  case (Cons k ks)
  show ?case
  proof (cases "merge_key loaded k s")
    case (Inl e)
    then show ?thesis by simp
  next
    case (Inr s')
    with Cons.prems have same: "map fst s' = map fst s"
      using merge_key_keys [of k s loaded s'] by simp
    have "fst ` set s' = fst ` set s"
      using same by (metis set_map)
    with Cons.prems have "set ks \<subseteq> fst ` set s'" by simp
    from Cons.IH [OF this] same Inr show ?thesis by simp
  qed
qed

lemma merge_keys_self: "merge_keys ks (PDict s) s = s"
  by (induction ks) (auto simp: update_triv split: option.splits)

lemma settings_init:
  "settings (init d) =
     (case settings_json d of
        Doc loaded \<Rightarrow> merge_keys (map fst DEFAULT_SETTINGS) loaded DEFAULT_SETTINGS
      | _ \<Rightarrow> DEFAULT_SETTINGS)"
  by (simp add: init_def load_settings_def check_files_exist_def Let_def
      split: file_content.splits)

lemma files_init: "files (init d) = d"
  by (simp add: init_def load_settings_def check_files_exist_def Let_def
      split: file_content.splits)

lemma init_keys: "map fst (settings (init d)) = map fst DEFAULT_SETTINGS"
  by (simp add: settings_init merge_keys_keys split: file_content.splits)

lemma exact_keys_determined:
  assumes "map fst s = map fst DEFAULT_SETTINGS" and "map fst s' = map fst DEFAULT_SETTINGS"
    and "\<And>k. k \<in> fst ` set DEFAULT_SETTINGS \<Longrightarrow> map_of s k = map_of s' k"
  shows "s = s'"
proof -
  have d: "distinct (map fst s)"
    using assms(1) by (simp add: DEFAULT_SETTINGS_def)
  have sets: "fst ` set s = fst ` set DEFAULT_SETTINGS" "fst ` set s' = fst ` set DEFAULT_SETTINGS"
    using assms(1,2) by (metis set_map)+
  have "map_of s = map_of s'"
  proof
    fix k
    show "map_of s k = map_of s' k"
    proof (cases "k \<in> fst ` set DEFAULT_SETTINGS")
      case True
      then show ?thesis by (rule assms(3))
    next
      case False
      then have "map_of s k = None" "map_of s' k = None"
        using sets by (simp_all add: map_of_eq_None_iff)
      then show ?thesis by simp
    qed
  qed
  then have "map_of (zip (map fst s) (map snd s)) = map_of (zip (map fst s) (map snd s'))"
    using assms(1,2) by (simp add: zip_map_fst_snd) (metis zip_map_fst_snd)
  moreover have "length s' = length s"
    using assms(1,2) by (metis length_map)
  then have "length (map snd s) = length (map fst s)"
    "length (map snd s') = length (map fst s)"
    by simp_all
  ultimately have "map snd s = map snd s'"
    using d by (intro map_of_zip_inject [of _ "map fst s"])
  then show ?thesis
    using assms(1,2) by (metis zip_map_fst_snd)
qed






subsection \<open>Saving and loading again\<close>

lemma save_settings_fields:
  "settings (save_settings st) = settings st"
  "settings_writable (files (save_settings st)) = settings_writable (files st)"
  "settings_writable (files st) \<Longrightarrow> settings_json (files (save_settings st)) = Doc (PDict (settings st))"
  by (simp_all add: save_settings_def)

lemma load_after_save:
  assumes "settings_writable (files st)"
  shows "settings (load_settings (save_settings st)) = settings st"
  using assms by (simp add: load_settings_def save_settings_def merge_keys_self)

lemma restart_after_save:
  assumes "settings_writable (files st)"
  shows "settings (init (files (save_settings st)))
           = merge_keys (map fst DEFAULT_SETTINGS) (PDict (settings st)) DEFAULT_SETTINGS"
  using assms by (simp add: settings_init save_settings_fields)

lemma restart_after_save_lookup:
  assumes "settings_writable (files st)" and "k \<in> fst ` set DEFAULT_SETTINGS"
    and "map_of (settings st) k \<noteq> None"
  shows "map_of (settings (init (files (save_settings st)))) k = map_of (settings st) k"
  using assms unfolding restart_after_save [OF assms(1)] merge_keys_lookup
  by auto

lemma restart_after_save_exact:
  assumes "settings_writable (files st)"
    and "map fst (settings st) = map fst DEFAULT_SETTINGS"
  shows "settings (init (files (save_settings st))) = settings st"
proof (rule exact_keys_determined)
  show "map fst (settings (init (files (save_settings st)))) = map fst DEFAULT_SETTINGS"
    by (rule init_keys)
  show "map fst (settings st) = map fst DEFAULT_SETTINGS"
    by (rule assms(2))
next
  fix k assume k: "k \<in> fst ` set DEFAULT_SETTINGS"
  have "fst ` set (settings st) = fst ` set DEFAULT_SETTINGS"
    using assms(2) by (metis set_map)
  with k have "map_of (settings st) k \<noteq> None"
    by (simp add: map_of_eq_None_iff)
  from restart_after_save_lookup [OF assms(1) k this]
  show "map_of (settings (init (files (save_settings st)))) k = map_of (settings st) k" .
qed

text \<open>
  Claim C7. For a settings dictionary that has the five recognized keys, when the
  settings file can be written: loading right after saving leaves the dictionary as it
  was; an application started on the saved file reads the same value as before for each
  of the five keys (and has exactly the dictionary that was saved when that one had no
  other key); and saving from that application and starting once more gives the same
  settings again, so a second save and load changes nothing.
\<close>

theorem C7_save_load_roundtrip:
  assumes "settings_writable (files st)"
    and "list_all (\<lambda>k. map_of (settings st) k \<noteq> None) (map fst DEFAULT_SETTINGS)"
  shows "settings (load_settings (save_settings st)) = settings st
       \<and> map (map_of (settings (init (files (save_settings st))))) (map fst DEFAULT_SETTINGS)
           = map (map_of (settings st)) (map fst DEFAULT_SETTINGS)
       \<and> (map fst (settings st) = map fst DEFAULT_SETTINGS
            \<longrightarrow> settings (init (files (save_settings st))) = settings st)
       \<and> settings (init (files (save_settings (init (files (save_settings st))))))
           = settings (init (files (save_settings st)))"
proof -
  let ?again = "init (files (save_settings st))"
  have w: "settings_writable (files ?again)"
    using assms(1) by (simp add: files_init save_settings_fields)
  have "map (map_of (settings ?again)) (map fst DEFAULT_SETTINGS)
          = map (map_of (settings st)) (map fst DEFAULT_SETTINGS)"
  proof (rule map_cong [OF refl])
    fix k assume "k \<in> set (map fst DEFAULT_SETTINGS)"
    then have k: "k \<in> fst ` set DEFAULT_SETTINGS" by simp
    with assms(2) have "map_of (settings st) k \<noteq> None"
      by (auto simp: list_all_iff)
    from restart_after_save_lookup [OF assms(1) k this]
    show "map_of (settings ?again) k = map_of (settings st) k" .
  qed
  moreover have "settings (init (files (save_settings ?again))) = settings ?again"
    using restart_after_save_exact [OF w init_keys] .
  ultimately show ?thesis
    using load_after_save [OF assms(1)] restart_after_save_exact [OF assms(1)] by simp
qed

lemma custom_fields:
  "settings custom =
     [(''hotkey'', PStr ''Ctrl+Alt+V''), (''sound_enabled'', PBool False),
      (''paste_delay'', PFloat (5 / 100)), (''start_minimized'', PBool True),
      (''run_on_startup'', PBool False)]"
  "files custom = disk0"
  by (simp_all add: custom_def files_init)

theorem C7_save_load_roundtrip_witness:
  "settings_writable (files custom)
   \<and> list_all (\<lambda>k. map_of (settings custom) k \<noteq> None) (map fst DEFAULT_SETTINGS)
   \<and> settings (load_settings (save_settings custom)) = settings custom
   \<and> settings (init (files (save_settings custom))) = settings custom
   \<and> settings (init (files (save_settings (init (files (save_settings custom))))))
       = settings (init (files (save_settings custom)))"
proof -
  have w: "settings_writable (files custom)"
    by (simp add: custom_fields disk0_def)
  have k: "list_all (\<lambda>k. map_of (settings custom) k \<noteq> None) (map fst DEFAULT_SETTINGS)"
    by (simp add: custom_fields DEFAULT_SETTINGS_def)
  have e: "map fst (settings custom) = map fst DEFAULT_SETTINGS"
    by (simp add: custom_fields DEFAULT_SETTINGS_def)
  from C7_save_load_roundtrip [OF w k] w k e show ?thesis by blast
qed

subsection \<open>The settings keep exactly the recognized keys\<close>

lemma recognized_keys:
  "fst ` set DEFAULT_SETTINGS
     = {''hotkey'', ''sound_enabled'', ''paste_delay'', ''start_minimized'', ''run_on_startup''}"
  by (simp add: DEFAULT_SETTINGS_def)

lemma update_recognized:
  assumes "map fst s = map fst DEFAULT_SETTINGS" and "k \<in> fst ` set DEFAULT_SETTINGS"
  shows "map fst (AList.update k v s) = map fst DEFAULT_SETTINGS"
proof -
  have "fst ` set s = fst ` set DEFAULT_SETTINGS"
    using assms(1) by (metis set_map)
  with assms show ?thesis by (simp add: update_present_keys)
qed

text \<open>What the parts of the handlers do to the settings and to the settings file.\<close>

lemma emit_keeps:
  "settings (emit e st) = settings st" "files (emit e st) = files st"
  by (simp_all add: emit_def)

lemma update_status_keeps:
  "settings (update_status s m st) = settings st" "files (update_status s m st) = files st"
  by (simp_all add: update_status_def)

lemma restart_keeps:
  "settings (restart_keyboard_listener failed st) = settings st"
  "files (restart_keyboard_listener failed st) = files st"
  by (cases failed; simp add: restart_keyboard_listener_def update_status_keeps)+

lemma save_changed:
  "settings (save_settings (st\<lparr>settings := s'\<rparr>)) = s'"
  "settings_writable (files (save_settings (st\<lparr>settings := s'\<rparr>))) = settings_writable (files st)"
  "settings_json (files (save_settings (st\<lparr>settings := s'\<rparr>)))
     = (if settings_writable (files st) then Doc (PDict s') else settings_json (files st))"
  by (simp_all add: save_settings_def)

lemma save_unchanged:
  "settings (save_settings st) = settings st"
  "settings_writable (files (save_settings st)) = settings_writable (files st)"
  "settings_json (files (save_settings st))
     = (if settings_writable (files st) then Doc (PDict (settings st))
        else settings_json (files st))"
  by (simp_all add: save_settings_def)

lemma track_press_keeps:
  "settings (track_press k st) = settings st" "files (track_press k st) = files st"
  by (simp_all add: track_press_def)

lemma start_stop_keeps:
  "settings (start_recording st) = settings st" "files (start_recording st) = files st"
  "settings (stop_recording st) = settings st" "files (stop_recording st) = files st"
  by (simp_all add: start_recording_def stop_recording_def Let_def emit_keeps
      update_status_def)

lemma on_key_press_keeps:
  "settings (snd (on_key_press k st)) = settings st"
  "files (snd (on_key_press k st)) = files st"
proof -
  show "settings (snd (on_key_press k st)) = settings st"
    by (cases "is_hotkey_pressed (track_press k st) k")
      (simp_all add: on_key_press_def Let_def track_press_keeps start_stop_keeps)
  show "files (snd (on_key_press k st)) = files st"
    by (cases "is_hotkey_pressed (track_press k st) k")
      (simp_all add: on_key_press_def Let_def track_press_keeps start_stop_keeps)
qed

lemma recognized_only_doc:
  "recognized_only (Doc (PDict kvs)) = (map fst kvs = map fst DEFAULT_SETTINGS)"
  by (simp add: recognized_only_def)

text \<open>
  A step that changes neither the settings nor the settings file, and a step that stores
  a value under a recognized key and saves.
\<close>

lemma keeps_invariant:
  assumes "map fst (settings st) = map fst DEFAULT_SETTINGS"
    and "settings_json (files st) = c0 \<or> recognized_only (settings_json (files st))"
    and "settings st' = settings st" and "settings_json (files st') = settings_json (files st)"
  shows "map fst (settings st') = map fst DEFAULT_SETTINGS
       \<and> (settings_json (files st') = c0 \<or> recognized_only (settings_json (files st')))"
  using assms by simp

lemma saves_invariant:
  assumes "map fst (settings st) = map fst DEFAULT_SETTINGS"
    and "settings_json (files st) = c0 \<or> recognized_only (settings_json (files st))"
    and "map fst s' = map fst DEFAULT_SETTINGS"
    and "settings st' = s'"
    and "settings_json (files st')
           = (if settings_writable (files st) then Doc (PDict s') else settings_json (files st))"
  shows "map fst (settings st') = map fst DEFAULT_SETTINGS
       \<and> (settings_json (files st') = c0 \<or> recognized_only (settings_json (files st')))"
  using assms by (simp add: recognized_only_doc)

lemma step_keys:
  assumes "map fst (settings st) = map fst DEFAULT_SETTINGS"
    and "settings_json (files st) = c0 \<or> recognized_only (settings_json (files st))"
  shows "map fst (settings (step e st)) = map fst DEFAULT_SETTINGS
       \<and> (settings_json (files (step e st)) = c0
            \<or> recognized_only (settings_json (files (step e st))))"
proof (cases e)
  case (KeyPress k)
  show ?thesis unfolding KeyPress step.simps
    by (rule keeps_invariant [OF assms]) (simp_all add: on_key_press_keeps)
next
  case (KeyRelease k)
  show ?thesis unfolding KeyRelease step.simps
    by (rule keeps_invariant [OF assms]) (simp_all add: on_key_release_def)
next
  case TrayToggle
  show ?thesis unfolding TrayToggle step.simps
    by (rule keeps_invariant [OF assms]) (simp_all add: toggle_recording_def start_stop_keeps)
next
  case (AudioChunk indata)
  show ?thesis unfolding AudioChunk step.simps
    by (rule keeps_invariant [OF assms]) (simp_all add: audio_callback_def)
next
  case (Worker env)
  show ?thesis unfolding Worker step.simps
    by (rule keeps_invariant [OF assms])
      (use untouched_process_recording [of env st] in \<open>simp_all add: untouched_def\<close>)
next
  case Poll
  show ?thesis unfolding Poll step.simps
    by (rule keeps_invariant [OF assms])
      (use untouched_poll_updates [of st] in \<open>simp_all add: untouched_def\<close>)
next
  case IndicatorCreated
  show ?thesis unfolding IndicatorCreated step.simps
    by (rule keeps_invariant [OF assms]) simp_all
next
  case (HotkeyChanged choice failed)
  have "map fst (AList.update ''hotkey'' (PStr choice) (settings st)) = map fst DEFAULT_SETTINGS"
    using assms(1) by (rule update_recognized) (simp add: recognized_keys)
  then show ?thesis unfolding HotkeyChanged step.simps
    by (rule saves_invariant [OF assms])
      (simp_all add: on_hotkey_changed_def Let_def restart_keeps emit_keeps save_changed)
next
  case (SoundChanged v)
  have "map fst (AList.update ''sound_enabled'' (PBool v) (settings st)) = map fst DEFAULT_SETTINGS"
    using assms(1) by (rule update_recognized) (simp add: recognized_keys)
  then show ?thesis unfolding SoundChanged step.simps
    by (rule saves_invariant [OF assms]) (simp_all add: on_sound_changed_def save_changed)
next
  case (DelayChanged label)
  show ?thesis
  proof (cases "map_of PASTE_DELAY_OPTIONS label")
    case None
    have "map fst (settings st) = map fst DEFAULT_SETTINGS" by (rule assms(1))
    then show ?thesis unfolding DelayChanged step.simps
      by (rule saves_invariant [OF assms])
        (simp_all add: on_delay_changed_def None save_unchanged)
  next
    case (Some val)
    have "map fst (AList.update ''paste_delay'' (PFloat val) (settings st))
        = map fst DEFAULT_SETTINGS"
      using assms(1) by (rule update_recognized) (simp add: recognized_keys)
    then show ?thesis unfolding DelayChanged step.simps
      by (rule saves_invariant [OF assms])
        (simp_all add: on_delay_changed_def Some save_changed)
  qed
next
  case (MinimizedChanged v)
  have "map fst (AList.update ''start_minimized'' (PBool v) (settings st)) = map fst DEFAULT_SETTINGS"
    using assms(1) by (rule update_recognized) (simp add: recognized_keys)
  then show ?thesis unfolding MinimizedChanged step.simps
    by (rule saves_invariant [OF assms]) (simp_all add: on_minimized_changed_def save_changed)
next
  case (StartupChanged v)
  have "map fst (AList.update ''run_on_startup'' (PBool v) (settings st)) = map fst DEFAULT_SETTINGS"
    using assms(1) by (rule update_recognized) (simp add: recognized_keys)
  then show ?thesis unfolding StartupChanged step.simps
    by (rule saves_invariant [OF assms])
      (simp_all add: on_startup_changed_def emit_keeps save_changed)
next
  case Quit
  have "map fst (settings st) = map fst DEFAULT_SETTINGS" by (rule assms(1))
  then show ?thesis unfolding Quit step.simps
    by (rule saves_invariant [OF assms]) (simp_all add: quit_app_def save_settings_def)
qed

lemma run_keys:
  assumes "map fst (settings st) = map fst DEFAULT_SETTINGS"
    and "settings_json (files st) = c0 \<or> recognized_only (settings_json (files st))"
  shows "map fst (settings (run es st)) = map fst DEFAULT_SETTINGS
       \<and> (settings_json (files (run es st)) = c0
            \<or> recognized_only (settings_json (files (run es st))))"
  using assms
proof (induction es arbitrary: st)
  case Nil
  then show ?case by simp
next
  case (Cons e es)
  from step_keys [OF Cons.prems, of e]
  have "map fst (settings (step e st)) = map fst DEFAULT_SETTINGS"
    and "settings_json (files (step e st)) = c0
         \<or> recognized_only (settings_json (files (step e st)))"
    by simp_all
  from Cons.IH [OF this] show ?case by simp
qed

lemma step_writable: "settings_writable (files (step e st)) = settings_writable (files st)"
proof (cases e)
  case (Worker env)
  then show ?thesis using untouched_process_recording [of env st]
    by (simp add: untouched_def)
next
  case Poll
  then show ?thesis using untouched_poll_updates [of st]
    by (simp add: untouched_def)
next
  case (KeyPress k)
  then show ?thesis by (simp add: on_key_press_keeps)
next
  case (HotkeyChanged choice failed)
  then show ?thesis
    by (simp add: on_hotkey_changed_def Let_def restart_keeps emit_keeps save_changed)
next
  case (DelayChanged label)
  then show ?thesis
    by (cases "map_of PASTE_DELAY_OPTIONS label")
      (simp_all add: on_delay_changed_def save_changed save_unchanged)
qed (simp_all add: on_key_release_def toggle_recording_def start_stop_keeps
      audio_callback_def on_sound_changed_def on_minimized_changed_def
      on_startup_changed_def quit_app_def emit_keeps save_changed save_unchanged)

lemma run_writable: "settings_writable (files (run es st)) = settings_writable (files st)"
  by (induction es arbitrary: st) (simp_all add: step_writable)

text \<open>
  Claim C10. After any sequence of events from the start of the application, on any
  disk, the settings dictionary has exactly the five recognized keys (in the order of the
  defaults); the settings file holds what it held at the start or a dictionary with
  exactly those keys; and what \<^verbatim>\<open>save_settings\<close> writes next, when the file can be
  written, is that five-key dictionary.
\<close>

theorem C10_settings_keys_invariant:
  "map fst (settings (run es (init d)))
     = [''hotkey'', ''sound_enabled'', ''paste_delay'', ''start_minimized'', ''run_on_startup'']
   \<and> (settings_json (files (run es (init d))) = settings_json d
        \<or> recognized_only (settings_json (files (run es (init d)))))
   \<and> (settings_writable (files (run es (init d)))
        \<longrightarrow> settings_json (files (save_settings (run es (init d))))
              = Doc (PDict (settings (run es (init d))))
            \<and> recognized_only (settings_json (files (save_settings (run es (init d))))))"
proof -
  have start: "settings_json (files (init d)) = settings_json d
      \<or> recognized_only (settings_json (files (init d)))"
    by (simp add: files_init)
  from run_keys [OF init_keys start, of es]
  have keys: "map fst (settings (run es (init d))) = map fst DEFAULT_SETTINGS"
    and onfile: "settings_json (files (run es (init d))) = settings_json d
        \<or> recognized_only (settings_json (files (run es (init d))))"
    by simp_all
  have "map fst DEFAULT_SETTINGS
      = [''hotkey'', ''sound_enabled'', ''paste_delay'', ''start_minimized'', ''run_on_startup'']"
    by (simp add: DEFAULT_SETTINGS_def)
  with keys onfile show ?thesis
    by (simp add: save_settings_def recognized_only_def)
qed

theorem C10_settings_keys_invariant_witness:
  "settings_writable (files (run [HotkeyChanged ''F9'' None, DelayChanged ''Slow (0.25s)'', Quit]
       (init disk_extra)))
   \<and> map fst (settings (run [HotkeyChanged ''F9'' None, DelayChanged ''Slow (0.25s)'', Quit]
       (init disk_extra)))
     = [''hotkey'', ''sound_enabled'', ''paste_delay'', ''start_minimized'', ''run_on_startup'']
   \<and> settings_json (files (save_settings
        (run [HotkeyChanged ''F9'' None, DelayChanged ''Slow (0.25s)'', Quit] (init disk_extra))))
       = Doc (PDict (settings
          (run [HotkeyChanged ''F9'' None, DelayChanged ''Slow (0.25s)'', Quit] (init disk_extra))))
   \<and> recognized_only (settings_json (files (save_settings
        (run [HotkeyChanged ''F9'' None, DelayChanged ''Slow (0.25s)'', Quit] (init disk_extra)))))"
proof -
  have w: "settings_writable (files
      (run [HotkeyChanged ''F9'' None, DelayChanged ''Slow (0.25s)'', Quit] (init disk_extra)))"
    unfolding run_writable files_init by (simp add: disk_extra_def disk0_def)
  from C10_settings_keys_invariant
    [of "[HotkeyChanged ''F9'' None, DelayChanged ''Slow (0.25s)'', Quit]" disk_extra] w
  show ?thesis by blast
qed

subsection \<open>The hotkey setting decides which key triggers\<close>

lemma F9_name: "Key_attr (lower ''F9'') = Some (F 9)"
  by code_simp

lemma hotkey_F9:
  assumes "dict_get (settings st) ''hotkey'' (PStr ''F8'') = PStr ''F9''"
  shows "is_hotkey_pressed st k = Inr (k = F 9)"
  using assms
  by (simp add: is_hotkey_pressed_def isdigit_def isdigit_char_def F9_name)

lemma hotkey_after_change:
  "dict_get (settings (on_hotkey_changed choice failed st)) ''hotkey'' dflt = PStr choice"
  by (simp add: on_hotkey_changed_def Let_def restart_keeps emit_keeps save_changed
      dict_get_def update_conv')

lemma hotkey_after_restart:
  assumes "settings_writable (files st)"
  shows "dict_get (settings (init (files (on_hotkey_changed choice failed st)))) ''hotkey'' dflt
           = PStr choice"
proof -
  have "settings_json (files (on_hotkey_changed choice failed st))
      = Doc (PDict (AList.update ''hotkey'' (PStr choice) (settings st)))"
    using assms
    by (simp add: on_hotkey_changed_def Let_def restart_keeps emit_keeps save_changed)
  then have "map_of (settings (init (files (on_hotkey_changed choice failed st)))) ''hotkey''
      = Some (PStr choice)"
    by (simp add: settings_init merge_keys_lookup update_conv' recognized_keys)
  then show ?thesis by (simp add: dict_get_def)
qed

text \<open>
  Claim C8. After \<^verbatim>\<open>on_hotkey_changed\<close> has stored and saved the hotkey \<open>F9\<close>, whatever the
  settings were before, \<^verbatim>\<open>is_hotkey_pressed\<close> returns true for the key F9 and false for
  the key F8. When the settings file can be written, the same holds of an application
  started afterwards on that file.
\<close>

theorem C8_hotkey_F9_matches_only_F9:
  "is_hotkey_pressed (on_hotkey_changed ''F9'' failed st) (F 9) = Inr True
   \<and> is_hotkey_pressed (on_hotkey_changed ''F9'' failed st) (F 8) = Inr False
   \<and> (settings_writable (files st)
        \<longrightarrow> is_hotkey_pressed (init (files (on_hotkey_changed ''F9'' failed st))) (F 9) = Inr True
          \<and> is_hotkey_pressed (init (files (on_hotkey_changed ''F9'' failed st))) (F 8) = Inr False)"
  using hotkey_F9 [OF hotkey_after_change [of "''F9''" failed st "PStr ''F8''"]]
    hotkey_F9 [OF hotkey_after_restart [of st "''F9''" failed "PStr ''F8''"]]
  by simp

theorem C8_hotkey_F9_matches_only_F9_witness:
  "settings_writable (files (init disk0))
   \<and> is_hotkey_pressed (init disk0) (F 8) = Inr True
   \<and> is_hotkey_pressed (on_hotkey_changed ''F9'' None (init disk0)) (F 9) = Inr True
   \<and> is_hotkey_pressed (on_hotkey_changed ''F9'' None (init disk0)) (F 8) = Inr False
   \<and> is_hotkey_pressed (init (files (on_hotkey_changed ''F9'' None (init disk0)))) (F 9)
       = Inr True
   \<and> is_hotkey_pressed (init (files (on_hotkey_changed ''F9'' None (init disk0)))) (F 8)
       = Inr False"
proof -
  have w: "settings_writable (files (init disk0))"
    by (simp add: files_init disk0_def)
  have before: "is_hotkey_pressed (init disk0) (F 8) = Inr True"
    by (simp add: is_hotkey_pressed_def settings_init disk0_def dict_get_def
        DEFAULT_SETTINGS_def isdigit_def isdigit_char_def Key_attr_def lower_def
        lower_char_def is_decimal_def digits_value_def)
  from C8_hotkey_F9_matches_only_F9 [of None "init disk0"] w before
  show ?thesis by blast
qed

end
